theory Spec2Isabelle
  imports Main
begin

section \<open>Data model of \<^verbatim>\<open>packages/firestore/exp/src/api/reference.ts\<close>\<close>

text \<open>
  The file under verification is the public read / write / listen surface of the
  Firestore client.  Every entry point runs synchronously up to the point where it hands a
  task to the client's operation queue and returns a promise or an unsubscribe handle.
  The model follows exactly that synchronous part: an entry point is a function from the
  client state to a result (an error thrown, or the value returned) together with the
  client state it leaves behind.  A thrown error keeps the state reached at the throw, so
  that "nothing was enqueued" is a statement about the returned state.

  User values (document data, field values) are the type parameter \<open>'v\<close>.  Arguments are
  well typed, so the \<^verbatim>\<open>cast\<close> calls of the source are identities.
\<close>

datatype error =
    ValidationError     \<comment> \<open>malformed arguments, missing order-by for a last-N query\<close>
  | TerminatedError     \<comment> \<open>the client was already terminated\<close>
  | AssertionFailure    \<comment> \<open>\<^verbatim>\<open>debugAssert\<close> failed\<close>
  | RemoteError string  \<comment> \<open>a commit or listen failure reported by a collaborator\<close>

type_synonym DocumentKey = "string list"

datatype Precondition = PreconditionNone | PreconditionExists bool

datatype FieldArg = FieldString string | FieldPathObject "string list"

datatype 'v Mutation =
    SetMutation DocumentKey 'v Precondition
  | PatchMutation DocumentKey FieldArg 'v Precondition
  | DeleteMutation DocumentKey Precondition

fun mutation_key :: "'v Mutation \<Rightarrow> DocumentKey" where
  "mutation_key (SetMutation k _ _) = k"
| "mutation_key (PatchMutation k _ _ _) = k"
| "mutation_key (DeleteMutation k _) = k"

fun mutation_precondition :: "'v Mutation \<Rightarrow> Precondition" where
  "mutation_precondition (SetMutation _ _ p) = p"
| "mutation_precondition (PatchMutation _ _ _ p) = p"
| "mutation_precondition (DeleteMutation _ p) = p"

datatype LimitType = First | Last

datatype Direction = Ascending | Descending

record InternalQuery =
  query_path :: "string list"
  explicitOrderBy :: "(string \<times> Direction) list"
  query_limit :: "nat option"
  limitType :: LimitType

record 'v DocumentReference =
  ref_key :: DocumentKey
  ref_converter :: "('v \<Rightarrow> 'v) option"

record 'v CollectionReference =
  coll_path :: "string list"
  coll_converter :: "('v \<Rightarrow> 'v) option"

record 'v Query =
  query_internal :: InternalQuery
  query_converter :: "('v \<Rightarrow> 'v) option"

record 'v Document =
  doc_key :: DocumentKey
  doc_data :: 'v
  hasLocalMutations :: bool

record 'v ViewSnapshot =
  vs_docs :: "'v Document list"
  vs_fromCache :: bool
  vs_hasPendingWrites :: bool

record SnapshotMetadata =
  hasPendingWrites :: bool
  fromCache :: bool

record 'v DocumentSnapshot =
  ds_key :: DocumentKey
  ds_document :: "'v Document option"
  ds_metadata :: SnapshotMetadata
  ds_converter :: "('v \<Rightarrow> 'v) option"

record 'v QuerySnapshot =
  qs_query :: "'v Query"
  qs_snapshot :: "'v ViewSnapshot"

record SetOptions =
  merge :: "bool option"
  mergeFields :: "string list option"

datatype Source = SourceDefault | SourceServer

subsection \<open>Promises over deferred cells\<close>

text \<open>
  \<^verbatim>\<open>new Deferred<T>()\<close> allocates a one-shot cell; the queue task receives the cell and
  the caller receives \<^verbatim>\<open>deferred.promise\<close>, possibly followed by \<^verbatim>\<open>.then(f)\<close>.
  A promise is therefore the cell it waits on and the function that maps the way the cell
  settles to the way the promise settles.
\<close>

datatype 'a outcome = Pending | Resolved 'a | Rejected error

record ('a, 'b) promise =
  cell :: nat
  settles :: "'a outcome \<Rightarrow> 'b outcome"

definition deferred_promise :: "nat \<Rightarrow> ('a, 'a) promise" where
  "deferred_promise d = \<lparr>cell = d, settles = (\<lambda>out. out)\<rparr>"

fun then_outcome :: "('a \<Rightarrow> error + 'b) \<Rightarrow> 'a outcome \<Rightarrow> 'b outcome" where
  "then_outcome f Pending = Pending"
| "then_outcome f (Rejected e) = Rejected e"
| "then_outcome f (Resolved x) = (case f x of Inl e \<Rightarrow> Rejected e | Inr y \<Rightarrow> Resolved y)"

definition promise_then :: "('a, 'b) promise \<Rightarrow> ('b \<Rightarrow> error + 'c) \<Rightarrow> ('a, 'c) promise" where
  "promise_then p f = \<lparr>cell = cell p, settles = (\<lambda>out. then_outcome f (settles p out))\<rparr>"

subsection \<open>Listeners, queue tasks and the client state\<close>

datatype arg =
    Undefined
  | Function nat
  | Object "bool option" "nat option" "nat option" "nat option"
    \<comment> \<open>an object literal: its \<^verbatim>\<open>includeMetadataChanges\<close> field and its
        \<^verbatim>\<open>next\<close>, \<^verbatim>\<open>error\<close> and \<^verbatim>\<open>complete\<close> methods, each possibly absent\<close>

datatype 'v Target = DocumentTarget "'v DocumentReference" | QueryTarget "'v Query"

datatype 'v NextFn =
    SnapshotNext "'v Target" arg  \<comment> \<open>convert the view snapshot, then call the user's function\<close>
  | PlainNext arg                 \<comment> \<open>the user's function itself\<close>

record 'v PartialObserver =
  obs_next :: "'v NextFn"
  obs_error :: arg
  obs_complete :: arg

record 'v AsyncObserver =
  observer :: "'v PartialObserver"
  muted :: bool

record QueryListener =
  listener_query :: InternalQuery
  listener_observer :: nat
  includeMetadataChanges :: "bool option"

datatype 'v task =
    ReadDocumentViaSnapshotListener DocumentKey Source nat
  | ReadDocumentFromCache DocumentKey nat
  | ExecuteQueryViaSnapshotListener InternalQuery Source nat
  | ExecuteQueryFromCache InternalQuery nat
  | SyncEngineWrite "'v Mutation list" nat
  | EventManagerListen QueryListener
  | EventManagerUnlisten QueryListener
  | AddSnapshotsInSyncListener nat
  | RemoveSnapshotsInSyncListener nat

datatype Unsubscribe =
    UnsubscribeListener nat QueryListener
  | UnsubscribeSnapshotsInSync nat

datatype 'v event = NextEvent "'v ViewSnapshot" | InSyncEvent | ErrorEvent error

record 'v FirebaseFirestore =
  terminated :: bool
  queue :: "'v task list"
  deferreds :: nat
  observers :: "'v AsyncObserver list"
  scheduled :: "(nat \<times> 'v event) list"
  invocations :: "(nat \<times> 'v event) list"

type_synonym ('v, 'a) action = "'v FirebaseFirestore \<Rightarrow> (error + 'a) \<times> 'v FirebaseFirestore"

definition bind :: "('v, 'a) action \<Rightarrow> ('a \<Rightarrow> ('v, 'b) action) \<Rightarrow> ('v, 'b) action" where
  "bind m f = (\<lambda>st. case m st of (Inl e, st') \<Rightarrow> (Inl e, st') | (Inr x, st') \<Rightarrow> f x st')"

definition return :: "'a \<Rightarrow> ('v, 'a) action" where
  "return x = (\<lambda>st. (Inr x, st))"

definition throw :: "error \<Rightarrow> ('v, 'a) action" where
  "throw e = (\<lambda>st. (Inl e, st))"


section \<open>Collaborators that are not part of the file\<close>

text \<open>
  Modelled from the spec: \<^verbatim>\<open>FirebaseFirestore._verifyNotTerminated\<close> (its class is not
  part of the file).  A client that was already terminated fails fast with the
  terminated-state error.
\<close>

definition verifyNotTerminated :: "('v, unit) action" where
  "verifyNotTerminated = (\<lambda>st. if terminated st then (Inl TerminatedError, st) else (Inr (), st))"

text \<open>
  Modelled from the spec: \<^verbatim>\<open>AsyncQueue.enqueueAndForget\<close>, the serialized operation
  queue.  Tasks are kept in submission order; once the owning client is torn down the queue
  refuses new submissions with the terminated error.
\<close>

definition enqueueAndForget :: "'v task \<Rightarrow> ('v, unit) action" where
  "enqueueAndForget t =
     (\<lambda>st. if terminated st then (Inl TerminatedError, st)
           else (Inr (), st\<lparr>queue := queue st @ [t]\<rparr>))"

text \<open>\<^verbatim>\<open>new Deferred()\<close>: the next unused cell.\<close>

definition newDeferred :: "('v, nat) action" where
  "newDeferred = (\<lambda>st. (Inr (deferreds st), st\<lparr>deferreds := Suc (deferreds st)\<rparr>))"

text \<open>
  Modelled from the spec: the query engine's check for last-N queries
  (\<^verbatim>\<open>validateHasExplicitOrderByForLimitToLast\<close>) and \<^verbatim>\<open>newQueryForPath\<close>.  A query
  consumed as "last N" must carry an explicit order term.
\<close>

definition hasLimitToLast :: "InternalQuery \<Rightarrow> bool" where
  "hasLimitToLast q = (query_limit q \<noteq> None \<and> limitType q = Last)"

definition validateHasExplicitOrderByForLimitToLast :: "InternalQuery \<Rightarrow> ('v, unit) action" where
  "validateHasExplicitOrderByForLimitToLast q =
     (if hasLimitToLast q \<and> explicitOrderBy q = [] then throw ValidationError else return ())"

definition newQueryForPath :: "string list \<Rightarrow> InternalQuery" where
  "newQueryForPath p = \<lparr>query_path = p, explicitOrderBy = [], query_limit = None, limitType = First\<rparr>"

text \<open>
  The data-model parsing and the converter glue are collaborators outside the file; the
  write entry points take them as parameters.
\<close>

record 'v collaborators =
  applyFirestoreDataConverter :: "('v \<Rightarrow> 'v) option \<Rightarrow> 'v \<Rightarrow> SetOptions option \<Rightarrow> 'v"
  parseSetData :: "string \<Rightarrow> DocumentKey \<Rightarrow> 'v \<Rightarrow> bool \<Rightarrow> SetOptions option \<Rightarrow> error + 'v"

definition lift :: "error + 'a \<Rightarrow> ('v, 'a) action" where
  "lift r = (\<lambda>st. (r, st))"

text \<open>
  Modelled from the spec: \<^verbatim>\<open>ParsedSetData.toMutations\<close>.  The parsed document becomes a
  single mutation on the key, carrying the precondition it is given.
\<close>

definition setData_toMutations :: "'v \<Rightarrow> DocumentKey \<Rightarrow> Precondition \<Rightarrow> 'v Mutation list" where
  "setData_toMutations parsed key precondition = [SetMutation key parsed precondition]"

text \<open>
  Modelled from the spec: \<^verbatim>\<open>parseUpdateVarargs\<close>, \<^verbatim>\<open>parseUpdateData\<close> and
  \<^verbatim>\<open>ParsedUpdateData.toMutations\<close>.  An update is rejected with a validation error when
  no field/value pair is given or when the trailing varargs have an odd count; otherwise
  every field/value pair becomes one field mutation on the key, in the order given,
  carrying the precondition it is given.  In the varargs form the leading field comes with
  an optional value (\<^verbatim>\<open>value?: unknown\<close>): without it the leading field makes no
  field/value pair and the call is rejected.  A trailing argument is tagged with the role
  the caller gives it; a position that holds the other kind is a validation error as well.
\<close>

datatype 'v unknown = FieldName FieldArg | FieldValue 'v

type_synonym 'v ParsedUpdateData = "(FieldArg \<times> 'v) list"

fun pair_up :: "'v unknown list \<Rightarrow> 'v ParsedUpdateData option" where
  "pair_up [] = Some []"
| "pair_up (FieldName f # FieldValue v # rest) = map_option (Cons (f, v)) (pair_up rest)"
| "pair_up _ = None"

definition parseUpdateVarargs ::
  "string \<Rightarrow> DocumentKey \<Rightarrow> FieldArg \<Rightarrow> 'v option \<Rightarrow> 'v unknown list \<Rightarrow> error + 'v ParsedUpdateData" where
  "parseUpdateVarargs methodName key field val moreFieldsAndValues =
     (if odd (length moreFieldsAndValues) then Inl ValidationError
      else case val of
             None \<Rightarrow> Inl ValidationError
           | Some v \<Rightarrow> (case pair_up moreFieldsAndValues of
                         None \<Rightarrow> Inl ValidationError
                       | Some ps \<Rightarrow> Inr ((field, v) # ps)))"

definition parseUpdateData ::
  "string \<Rightarrow> DocumentKey \<Rightarrow> (string \<times> 'v) list \<Rightarrow> error + 'v ParsedUpdateData" where
  "parseUpdateData methodName key input =
     (if input = [] then Inl ValidationError
      else Inr (map (\<lambda>(k, v). (FieldString k, v)) input))"

definition updateData_toMutations ::
  "'v ParsedUpdateData \<Rightarrow> DocumentKey \<Rightarrow> Precondition \<Rightarrow> 'v Mutation list" where
  "updateData_toMutations parsed key precondition =
     map (\<lambda>(f, v). PatchMutation key f v precondition) parsed"

text \<open>
  Modelled from the spec: the key factory behind \<^verbatim>\<open>doc(collRef)\<close>.  The spec delegates
  collision-free generation of the identifier to the factory: the identifier it hands out
  collides with no document key that exists.  Which keys exist is known to the environment,
  not to the file, so the existing keys are the factory's input; the identifier it returns
  is longer than every segment of every existing key.  The new reference is the child of
  the collection under that identifier.
\<close>

definition newId :: "DocumentKey list \<Rightarrow> string" where
  "newId existing = replicate (Suc (foldr max (map length (concat existing)) 0)) CHR ''a''"

definition doc :: "'v CollectionReference \<Rightarrow> DocumentKey list \<Rightarrow> 'v DocumentReference" where
  "doc collRef existing =
     \<lparr>ref_key = coll_path collRef @ [newId existing], ref_converter = coll_converter collRef\<rparr>"

text \<open>
  Modelled from the spec: \<^verbatim>\<open>debugAssert\<close>.  A failed assertion is fatal: it raises the
  assertion failure, which is no user-facing error.
\<close>

definition debugAssert :: "bool \<Rightarrow> error + unit" where
  "debugAssert assertion = (if assertion then Inr () else Inl AssertionFailure)"

text \<open>
  Modelled from the spec: \<^verbatim>\<open>isPartialObserver\<close>.  An argument is a partial observer
  when it is an object that implements at least one of \<^verbatim>\<open>next\<close>, \<^verbatim>\<open>error\<close> and
  \<^verbatim>\<open>complete\<close>.
\<close>

fun isPartialObserver :: "arg \<Rightarrow> bool" where
  "isPartialObserver (Object _ n e c) = (n \<noteq> None \<or> e \<noteq> None \<or> c \<noteq> None)"
| "isPartialObserver _ = False"

text \<open>
  Modelled from the spec: \<^verbatim>\<open>AsyncObserver\<close>, the wrapper that carries the mute flag of
  a listener.  An event raised on a muted wrapper is dropped; an event raised earlier is a
  scheduled delivery, and when it comes up it reaches the wrapped observer only if the
  wrapper is still not muted.  \<open>invocations\<close> logs every event handed to a wrapped
  observer, which is the only way a user callback is ever called.
\<close>

definition newAsyncObserver :: "'v PartialObserver \<Rightarrow> ('v, nat) action" where
  "newAsyncObserver ob =
     (\<lambda>st. (Inr (length (observers st)),
            st\<lparr>observers := observers st @ [\<lparr>observer = ob, muted = False\<rparr>]\<rparr>))"

definition is_muted :: "'v FirebaseFirestore \<Rightarrow> nat \<Rightarrow> bool" where
  "is_muted st w = (w < length (observers st) \<and> muted (observers st ! w))"

definition mute :: "nat \<Rightarrow> ('v, unit) action" where
  "mute w =
     (\<lambda>st. (Inr (),
            if w < length (observers st)
            then st\<lparr>observers := (observers st)[w := (observers st ! w)\<lparr>muted := True\<rparr>]\<rparr>
            else st))"

definition raise_event :: "nat \<Rightarrow> 'v event \<Rightarrow> 'v FirebaseFirestore \<Rightarrow> 'v FirebaseFirestore" where
  "raise_event w ev st =
     (if w < length (observers st) \<and> \<not> muted (observers st ! w)
      then st\<lparr>scheduled := scheduled st @ [(w, ev)]\<rparr> else st)"

definition deliver_scheduled :: "'v FirebaseFirestore \<Rightarrow> 'v FirebaseFirestore" where
  "deliver_scheduled st =
     (case scheduled st of
        [] \<Rightarrow> st
      | (w, ev) # rest \<Rightarrow>
          if w < length (observers st) \<and> \<not> muted (observers st ! w)
          then st\<lparr>scheduled := rest, invocations := invocations st @ [(w, ev)]\<rparr>
          else st\<lparr>scheduled := rest\<rparr>)"


section \<open>The entry points of \<^verbatim>\<open>reference.ts\<close>\<close>

subsection \<open>Snapshot conversion\<close>

definition docs_get :: "'v Document list \<Rightarrow> DocumentKey \<Rightarrow> 'v Document option" where
  "docs_get ds k = find (\<lambda>d. doc_key d = k) ds"

definition convertToDocSnapshot ::
  "'v DocumentReference \<Rightarrow> 'v ViewSnapshot \<Rightarrow> error + 'v DocumentSnapshot" where
  "convertToDocSnapshot ref snapshot =
     (case debugAssert (length (vs_docs snapshot) \<le> 1) of
        Inl e \<Rightarrow> Inl e
      | Inr _ \<Rightarrow>
          Inr \<lparr>ds_key = ref_key ref,
               ds_document = docs_get (vs_docs snapshot) (ref_key ref),
               ds_metadata = \<lparr>hasPendingWrites = vs_hasPendingWrites snapshot,
                              fromCache = vs_fromCache snapshot\<rparr>,
               ds_converter = ref_converter ref\<rparr>)"

definition newQuerySnapshot :: "'v Query \<Rightarrow> 'v ViewSnapshot \<Rightarrow> error + 'v QuerySnapshot" where
  "newQuerySnapshot q snapshot = Inr \<lparr>qs_query = q, qs_snapshot = snapshot\<rparr>"

subsection \<open>Reads\<close>

definition getDoc ::
  "'v DocumentReference \<Rightarrow> ('v, ('v ViewSnapshot, 'v DocumentSnapshot) promise) action" where
  "getDoc reference =
     bind verifyNotTerminated (\<lambda>_.
     bind newDeferred (\<lambda>deferred.
     bind (enqueueAndForget
             (ReadDocumentViaSnapshotListener (ref_key reference) SourceDefault deferred)) (\<lambda>_.
     return (promise_then (deferred_promise deferred) (convertToDocSnapshot reference)))))"

definition getDocFromCache ::
  "'v DocumentReference \<Rightarrow> ('v, ('v Document option, 'v DocumentSnapshot) promise) action" where
  "getDocFromCache reference =
     bind verifyNotTerminated (\<lambda>_.
     bind newDeferred (\<lambda>deferred.
     bind (enqueueAndForget (ReadDocumentFromCache (ref_key reference) deferred)) (\<lambda>_.
     return (promise_then (deferred_promise deferred)
       (\<lambda>doc. Inr \<lparr>ds_key = ref_key reference,
                    ds_document = doc,
                    ds_metadata =
                      \<lparr>hasPendingWrites =
                         (case doc of Some d \<Rightarrow> hasLocalMutations d | None \<Rightarrow> False),
                       fromCache = True\<rparr>,
                    ds_converter = ref_converter reference\<rparr>)))))"

definition getDocFromServer ::
  "'v DocumentReference \<Rightarrow> ('v, ('v ViewSnapshot, 'v DocumentSnapshot) promise) action" where
  "getDocFromServer reference =
     bind verifyNotTerminated (\<lambda>_.
     bind newDeferred (\<lambda>deferred.
     bind (enqueueAndForget
             (ReadDocumentViaSnapshotListener (ref_key reference) SourceServer deferred)) (\<lambda>_.
     return (promise_then (deferred_promise deferred) (convertToDocSnapshot reference)))))"

definition getDocs ::
  "'v Query \<Rightarrow> ('v, ('v ViewSnapshot, 'v QuerySnapshot) promise) action" where
  "getDocs query =
     bind verifyNotTerminated (\<lambda>_.
     bind (validateHasExplicitOrderByForLimitToLast (query_internal query)) (\<lambda>_.
     bind newDeferred (\<lambda>deferred.
     bind (enqueueAndForget
             (ExecuteQueryViaSnapshotListener (query_internal query) SourceDefault deferred)) (\<lambda>_.
     return (promise_then (deferred_promise deferred) (newQuerySnapshot query))))))"

definition getDocsFromCache ::
  "'v Query \<Rightarrow> ('v, ('v ViewSnapshot, 'v QuerySnapshot) promise) action" where
  "getDocsFromCache query =
     bind verifyNotTerminated (\<lambda>_.
     bind newDeferred (\<lambda>deferred.
     bind (enqueueAndForget (ExecuteQueryFromCache (query_internal query) deferred)) (\<lambda>_.
     return (promise_then (deferred_promise deferred) (newQuerySnapshot query)))))"

definition getDocsFromServer ::
  "'v Query \<Rightarrow> ('v, ('v ViewSnapshot, 'v QuerySnapshot) promise) action" where
  "getDocsFromServer query =
     bind verifyNotTerminated (\<lambda>_.
     bind newDeferred (\<lambda>deferred.
     bind (enqueueAndForget
             (ExecuteQueryViaSnapshotListener (query_internal query) SourceServer deferred)) (\<lambda>_.
     return (promise_then (deferred_promise deferred) (newQuerySnapshot query)))))"

subsection \<open>Writes\<close>

definition executeWrite :: "'v Mutation list \<Rightarrow> ('v, (unit, unit) promise) action" where
  "executeWrite mutations =
     bind newDeferred (\<lambda>deferred.
     bind (enqueueAndForget (SyncEngineWrite mutations deferred)) (\<lambda>_.
     return (deferred_promise deferred)))"

definition setDoc ::
  "'v collaborators \<Rightarrow> 'v DocumentReference \<Rightarrow> 'v \<Rightarrow> SetOptions option
     \<Rightarrow> ('v, (unit, unit) promise) action" where
  "setDoc co reference input options =
     bind verifyNotTerminated (\<lambda>_.
     let convertedValue =
           applyFirestoreDataConverter co (ref_converter reference) input options
     in bind (lift (parseSetData co ''setDoc'' (ref_key reference) convertedValue
                      (ref_converter reference \<noteq> None) options)) (\<lambda>parsed.
        let mutations = setData_toMutations parsed (ref_key reference) PreconditionNone
        in executeWrite mutations))"

datatype 'v FieldOrUpdateData = Field FieldArg | UpdateData "(string \<times> 'v) list"

definition updateDoc ::
  "'v DocumentReference \<Rightarrow> 'v FieldOrUpdateData \<Rightarrow> 'v option \<Rightarrow> 'v unknown list
     \<Rightarrow> ('v, (unit, unit) promise) action" where
  "updateDoc reference fieldOrUpdateData val moreFieldsAndValues =
     bind verifyNotTerminated (\<lambda>_.
     bind (lift (case fieldOrUpdateData of
                   Field f \<Rightarrow>
                     parseUpdateVarargs ''updateDoc'' (ref_key reference) f val moreFieldsAndValues
                 | UpdateData d \<Rightarrow>
                     parseUpdateData ''updateDoc'' (ref_key reference) d)) (\<lambda>parsed.
     let mutations = updateData_toMutations parsed (ref_key reference) (PreconditionExists True)
     in executeWrite mutations))"

definition deleteDoc :: "'v DocumentReference \<Rightarrow> ('v, (unit, unit) promise) action" where
  "deleteDoc reference =
     bind verifyNotTerminated (\<lambda>_.
     let mutations = [DeleteMutation (ref_key reference) PreconditionNone]
     in executeWrite mutations)"

definition addDoc ::
  "'v collaborators \<Rightarrow> DocumentKey list \<Rightarrow> 'v CollectionReference \<Rightarrow> 'v
     \<Rightarrow> ('v, (unit, 'v DocumentReference) promise) action" where
  "addDoc co existing reference input =
     bind verifyNotTerminated (\<lambda>_.
     let docRef = doc reference existing;
         convertedValue = applyFirestoreDataConverter co (coll_converter reference) input None
     in bind (lift (parseSetData co ''addDoc'' (ref_key docRef) convertedValue
                      (coll_converter reference \<noteq> None)
                      (Some \<lparr>merge = None, mergeFields = None\<rparr>))) (\<lambda>parsed.
        let mutations = setData_toMutations parsed (ref_key docRef) (PreconditionExists False)
        in bind (executeWrite mutations) (\<lambda>p.
           return (promise_then p (\<lambda>_. Inr docRef)))))"

subsection \<open>Listeners\<close>

text \<open>
  \<^verbatim>\<open>args[i]\<close> past the end of the array reads \<^verbatim>\<open>undefined\<close>, and \<^verbatim>\<open>args[i] = v\<close>
  past the end extends the array.
\<close>

definition nth_arg :: "arg list \<Rightarrow> nat \<Rightarrow> arg" where
  "nth_arg args i = (if i < length args then args ! i else Undefined)"

definition set_arg :: "arg list \<Rightarrow> nat \<Rightarrow> arg \<Rightarrow> arg list" where
  "set_arg args i v =
     (if i < length args then args[i := v]
      else args @ replicate (i - length args) Undefined @ [v])"

fun isObject :: "arg \<Rightarrow> bool" where
  "isObject (Object _ _ _ _) = True"
| "isObject _ = False"

fun options_includeMetadataChanges :: "arg \<Rightarrow> bool option" where
  "options_includeMetadataChanges (Object imc _ _ _) = imc"
| "options_includeMetadataChanges _ = None"

fun bound_method :: "nat option \<Rightarrow> arg" where
  "bound_method None = Undefined"
| "bound_method (Some f) = Function f"

fun bind_observer_methods :: "arg list \<Rightarrow> nat \<Rightarrow> arg list" where
  "bind_observer_methods args currArg =
     (case nth_arg args currArg of
        Object _ n e c \<Rightarrow>
          set_arg (set_arg (set_arg args currArg (bound_method n))
                     (currArg + 1) (bound_method e))
            (currArg + 2) (bound_method c)
      | _ \<Rightarrow> args)"

definition onSnapshot :: "'v Target \<Rightarrow> arg list \<Rightarrow> ('v, Unsubscribe) action" where
  "onSnapshot ref args0 =
     (let takesOptions = (isObject (nth_arg args0 0) \<and> \<not> isPartialObserver (nth_arg args0 0));
          options = (if takesOptions then options_includeMetadataChanges (nth_arg args0 0)
                     else Some False);
          currArg = (if takesOptions then 1 else 0);
          internalOptions = options;
          args = (if isPartialObserver (nth_arg args0 currArg)
                  then bind_observer_methods args0 currArg else args0);
          obs = \<lparr>obs_next = SnapshotNext ref (nth_arg args currArg),
                 obs_error = nth_arg args (currArg + 1),
                 obs_complete = nth_arg args (currArg + 2)\<rparr>;
          internalQuery = (case ref of
                             DocumentTarget r \<Rightarrow> newQueryForPath (ref_key r)
                           | QueryTarget q \<Rightarrow> query_internal q)
      in bind (case ref of
                 DocumentTarget r \<Rightarrow> return ()
               | QueryTarget q \<Rightarrow> validateHasExplicitOrderByForLimitToLast (query_internal q)) (\<lambda>_.
         bind verifyNotTerminated (\<lambda>_.
         bind (newAsyncObserver obs) (\<lambda>wrappedObserver.
         let listener = \<lparr>listener_query = internalQuery,
                         listener_observer = wrappedObserver,
                         includeMetadataChanges = internalOptions\<rparr>
         in bind (enqueueAndForget (EventManagerListen listener)) (\<lambda>_.
            return (UnsubscribeListener wrappedObserver listener))))))"

definition onSnapshotsInSync :: "arg \<Rightarrow> ('v, Unsubscribe) action" where
  "onSnapshotsInSync a =
     bind verifyNotTerminated (\<lambda>_.
     let obs = (case a of
                  Object _ n e c \<Rightarrow>
                    if isPartialObserver a
                    then \<lparr>obs_next = PlainNext (bound_method n),
                          obs_error = bound_method e,
                          obs_complete = bound_method c\<rparr>
                    else \<lparr>obs_next = PlainNext a, obs_error = Undefined, obs_complete = Undefined\<rparr>
                | _ \<Rightarrow> \<lparr>obs_next = PlainNext a, obs_error = Undefined, obs_complete = Undefined\<rparr>)
     in bind (newAsyncObserver obs) (\<lambda>wrappedObserver.
        bind (enqueueAndForget (AddSnapshotsInSyncListener wrappedObserver)) (\<lambda>_.
        return (UnsubscribeSnapshotsInSync wrappedObserver))))"

text \<open>
  The two closures returned as unsubscribe functions: mute the wrapped observer, then
  enqueue the de-registration.
\<close>

fun unsubscribe :: "Unsubscribe \<Rightarrow> ('v, unit) action" where
  "unsubscribe (UnsubscribeListener wrappedObserver listener) =
     bind (mute wrappedObserver) (\<lambda>_. enqueueAndForget (EventManagerUnlisten listener))"
| "unsubscribe (UnsubscribeSnapshotsInSync wrappedObserver) =
     bind (mute wrappedObserver) (\<lambda>_.
       enqueueAndForget (RemoveSnapshotsInSyncListener wrappedObserver))"


section \<open>The sync engine and the environment of the client\<close>

text \<open>
  Modelled from the spec: \<^verbatim>\<open>syncEngineWrite\<close> and the remote commit channel.  The
  write task applies the mutations to the local cache (the optimistic write) and forwards
  them to the commit channel together with the caller's deferred cell; the cell is settled
  when the remote commit is acknowledged or fails.  Whether a failed commit rolls the local
  write back is left open by the spec, so the local cache is not touched by a failure here.
\<close>

record 'v SyncEngine =
  localWrites :: "'v Mutation list"
  pendingCommits :: "('v Mutation list \<times> nat) list"
  writeCells :: "nat \<Rightarrow> unit outcome"

definition syncEngineWrite :: "'v Mutation list \<Rightarrow> nat \<Rightarrow> 'v SyncEngine \<Rightarrow> 'v SyncEngine" where
  "syncEngineWrite batch deferred se =
     se\<lparr>localWrites := localWrites se @ batch,
        pendingCommits := pendingCommits se @ [(batch, deferred)]\<rparr>"

definition commitAcknowledged :: "'v SyncEngine \<Rightarrow> 'v SyncEngine" where
  "commitAcknowledged se =
     (case pendingCommits se of
        [] \<Rightarrow> se
      | (batch, deferred) # rest \<Rightarrow>
          se\<lparr>pendingCommits := rest, writeCells := (writeCells se)(deferred := Resolved ())\<rparr>)"

definition commitFailed :: "error \<Rightarrow> 'v SyncEngine \<Rightarrow> 'v SyncEngine" where
  "commitFailed e se =
     (case pendingCommits se of
        [] \<Rightarrow> se
      | (batch, deferred) # rest \<Rightarrow>
          se\<lparr>pendingCommits := rest, writeCells := (writeCells se)(deferred := Rejected e)\<rparr>)"

fun run_task :: "'v task \<Rightarrow> 'v SyncEngine \<Rightarrow> 'v SyncEngine" where
  "run_task (SyncEngineWrite batch deferred) se = syncEngineWrite batch deferred se"
| "run_task _ se = se"

definition promise_outcome :: "'v SyncEngine \<Rightarrow> (unit, 'b) promise \<Rightarrow> 'b outcome" where
  "promise_outcome se p = settles p (writeCells se (cell p))"

text \<open>
  Everything that can happen to a client between two moments: a collaborator raises an
  event on a wrapped observer, a scheduled delivery comes up, the queue runs its oldest
  task, the application calls an entry point or an unsubscribe function, or the client is
  terminated.

  Modelled from the spec: the terminate operation of the client, which is not part of the
  file.  It tears the queue down: from then on the client is terminated and the queue
  refuses new submissions; tasks accepted before are still drained.
\<close>

datatype 'v step =
    RaiseEvent nat "'v event"
  | DeliverScheduled
  | RunTask
  | Terminate
  | CallUnsubscribe Unsubscribe
  | CallOnSnapshot "'v Target" "arg list"
  | CallOnSnapshotsInSync arg
  | CallGetDoc "'v DocumentReference"
  | CallGetDocFromCache "'v DocumentReference"
  | CallGetDocFromServer "'v DocumentReference"
  | CallGetDocs "'v Query"
  | CallGetDocsFromCache "'v Query"
  | CallGetDocsFromServer "'v Query"
  | CallSetDoc "'v collaborators" "'v DocumentReference" 'v "SetOptions option"
  | CallUpdateDoc "'v DocumentReference" "'v FieldOrUpdateData" "'v option" "'v unknown list"
  | CallDeleteDoc "'v DocumentReference"
  | CallAddDoc "'v collaborators" "DocumentKey list" "'v CollectionReference" 'v

fun perform :: "'v step \<Rightarrow> 'v FirebaseFirestore \<Rightarrow> 'v FirebaseFirestore" where
  "perform (RaiseEvent w ev) st = raise_event w ev st"
| "perform DeliverScheduled st = deliver_scheduled st"
| "perform RunTask st = st\<lparr>queue := tl (queue st)\<rparr>"
| "perform Terminate st = st\<lparr>terminated := True\<rparr>"
| "perform (CallUnsubscribe u) st = snd (unsubscribe u st)"
| "perform (CallOnSnapshot t args) st = snd (onSnapshot t args st)"
| "perform (CallOnSnapshotsInSync a) st = snd (onSnapshotsInSync a st)"
| "perform (CallGetDoc r) st = snd (getDoc r st)"
| "perform (CallGetDocFromCache r) st = snd (getDocFromCache r st)"
| "perform (CallGetDocFromServer r) st = snd (getDocFromServer r st)"
| "perform (CallGetDocs q) st = snd (getDocs q st)"
| "perform (CallGetDocsFromCache q) st = snd (getDocsFromCache q st)"
| "perform (CallGetDocsFromServer q) st = snd (getDocsFromServer q st)"
| "perform (CallSetDoc co r v opts) st = snd (setDoc co r v opts st)"
| "perform (CallUpdateDoc r f v mfv) st = snd (updateDoc r f v mfv st)"
| "perform (CallDeleteDoc r) st = snd (deleteDoc r st)"
| "perform (CallAddDoc co existing c v) st = snd (addDoc co existing c v st)"

fun run :: "'v step list \<Rightarrow> 'v FirebaseFirestore \<Rightarrow> 'v FirebaseFirestore" where
  "run [] st = st"
| "run (a # rest) st = run rest (perform a st)"

definition invocations_of :: "nat \<Rightarrow> 'v FirebaseFirestore \<Rightarrow> (nat \<times> 'v event) list" where
  "invocations_of w st = filter (\<lambda>(i, ev). i = w) (invocations st)"


text \<open>The task an unsubscribe function enqueues after muting.\<close>

fun deregistration :: "Unsubscribe \<Rightarrow> 'v task" where
  "deregistration (UnsubscribeListener w l) = EventManagerUnlisten l"
| "deregistration (UnsubscribeSnapshotsInSync w) = RemoveSnapshotsInSyncListener w"

text \<open>The internal query a listener on the target is registered for.\<close>

definition target_query :: "'v Target \<Rightarrow> InternalQuery" where
  "target_query t =
     (case t of
        DocumentTarget r \<Rightarrow> newQueryForPath (ref_key r)
      | QueryTarget q \<Rightarrow> query_internal q)"

text \<open>
  A call of \<^verbatim>\<open>onSnapshot\<close> supplies no listen options when the argument after the target
  is a function, or an observer that implements at least one callback.  (An object that
  implements none is, structurally, the options object \<^verbatim>\<open>{}\<close>.)
\<close>

definition noListenOptions :: "arg list \<Rightarrow> bool" where
  "noListenOptions args =
     (case nth_arg args 0 of
        Undefined \<Rightarrow> True
      | Function f \<Rightarrow> True
      | Object imc n e c \<Rightarrow> isPartialObserver (Object imc n e c))"

section \<open>Concrete inputs\<close>

definition live_client :: "'v FirebaseFirestore" where
  "live_client = \<lparr>terminated = False, queue = [], deferreds = 0, observers = [],
                   scheduled = [], invocations = []\<rparr>"

definition terminated_client :: "'v FirebaseFirestore" where
  "terminated_client = \<lparr>terminated = True, queue = [], deferreds = 0, observers = [],
                         scheduled = [], invocations = []\<rparr>"

definition lastFive :: "'v Query" where
  "lastFive = \<lparr>query_internal = \<lparr>query_path = [''rooms''], explicitOrderBy = [],
                                   query_limit = Some 5, limitType = Last\<rparr>,
               query_converter = None\<rparr>"

definition allRooms :: "'v Query" where
  "allRooms = \<lparr>query_internal = newQueryForPath [''rooms''], query_converter = None\<rparr>"

definition roomOne :: "'v DocumentReference" where
  "roomOne = \<lparr>ref_key = [''rooms'', ''one''], ref_converter = None\<rparr>"

definition rooms :: "'v CollectionReference" where
  "rooms = \<lparr>coll_path = [''rooms''], coll_converter = None\<rparr>"

definition plain_collaborators :: "'v collaborators" where
  "plain_collaborators =
     \<lparr>applyFirestoreDataConverter = (\<lambda>c v opts. case c of None \<Rightarrow> v | Some f \<Rightarrow> f v),
      parseSetData = (\<lambda>m k v hasConverter opts. Inr v)\<rparr>"

definition idle_engine :: "'v SyncEngine" where
  "idle_engine = \<lparr>localWrites = [], pendingCommits = [], writeCells = (\<lambda>d. Pending)\<rparr>"


definition roomListener :: QueryListener where
  "roomListener = \<lparr>listener_query = newQueryForPath [''rooms'', ''one''],
                    listener_observer = 0,
                    includeMetadataChanges = Some False\<rparr>"

definition roomHandle :: Unsubscribe where
  "roomHandle = UnsubscribeListener 0 roomListener"

definition listening_client :: "'v FirebaseFirestore" where
  "listening_client = snd (onSnapshot (DocumentTarget roomOne) [Function 0] live_client)"

definition twoDocuments :: "int ViewSnapshot" where
  "twoDocuments =
     \<lparr>vs_docs = [\<lparr>doc_key = [''rooms'', ''one''], doc_data = 1, hasLocalMutations = False\<rparr>,
                 \<lparr>doc_key = [''rooms'', ''two''], doc_data = 2, hasLocalMutations = False\<rparr>],
      vs_fromCache = False, vs_hasPendingWrites = False\<rparr>"

definition oneDocument :: "int ViewSnapshot" where
  "oneDocument =
     \<lparr>vs_docs = [\<lparr>doc_key = [''rooms'', ''one''], doc_data = 1, hasLocalMutations = True\<rparr>],
      vs_fromCache = True, vs_hasPendingWrites = True\<rparr>"



section \<open>Basic facts\<close>

lemmas primitives = bind_def return_def throw_def lift_def verifyNotTerminated_def
  enqueueAndForget_def newDeferred_def validateHasExplicitOrderByForLimitToLast_def
  newAsyncObserver_def mute_def

lemmas entry_points = getDoc_def getDocFromCache_def getDocFromServer_def getDocs_def
  getDocsFromCache_def getDocsFromServer_def setDoc_def updateDoc_def deleteDoc_def
  addDoc_def executeWrite_def onSnapshot_def onSnapshotsInSync_def

lemma executeWrite_live:
  "\<not> terminated st \<Longrightarrow>
   executeWrite ms st =
     (Inr (deferred_promise (deferreds st)),
      st\<lparr>deferreds := Suc (deferreds st),
         queue := queue st @ [SyncEngineWrite ms (deferreds st)]\<rparr>)"
  by (simp add: executeWrite_def primitives)




lemma live_client_live [simp]: "\<not> terminated live_client"
  by (simp add: live_client_def)

lemma terminated_client_terminated [simp]: "terminated terminated_client"
  by (simp add: terminated_client_def)

lemma lastFive_needs_order [simp]:
  "hasLimitToLast (query_internal lastFive)" "explicitOrderBy (query_internal lastFive) = []"
  by (simp_all add: lastFive_def hasLimitToLast_def)

section \<open>Validation of last-N queries\<close>

text \<open>
  The two entry points that call the validator reject a last-N query without an explicit
  order term, and leave the client untouched.
\<close>

lemma getDocs_validates:
  "\<not> terminated st \<Longrightarrow> hasLimitToLast (query_internal q) \<Longrightarrow>
   explicitOrderBy (query_internal q) = [] \<Longrightarrow>
   getDocs q st = (Inl ValidationError, st)"
  by (simp add: getDocs_def primitives)

lemma onSnapshot_validates:
  "hasLimitToLast (query_internal q) \<Longrightarrow> explicitOrderBy (query_internal q) = [] \<Longrightarrow>
   onSnapshot (QueryTarget q) args st = (Inl ValidationError, st)"
  by (simp add: onSnapshot_def primitives Let_def)

text \<open>
  Claim C1.  Every query-reading entry point is claimed to reject a last-N query without an
  explicit order term before anything is enqueued.  \<^verbatim>\<open>getDocs\<close> does; the cache and the
  server variants never call the validator: on a live client they accept the query
  \<^verbatim>\<open>limitToLast(5)\<close> over a collection, allocate the deferred cell and enqueue the read.
\<close>

theorem getDocsFromCache_limitToLast_not_validated:
  "getDocs (lastFive :: int Query) live_client = (Inl ValidationError, live_client)
   \<and> getDocsFromCache (lastFive :: int Query) live_client =
       (Inr (promise_then (deferred_promise 0) (newQuerySnapshot lastFive)),
        live_client\<lparr>queue := [ExecuteQueryFromCache (query_internal (lastFive :: int Query)) 0],
                     deferreds := 1\<rparr>)
   \<and> getDocsFromServer (lastFive :: int Query) live_client =
       (Inr (promise_then (deferred_promise 0) (newQuerySnapshot lastFive)),
        live_client\<lparr>queue := [ExecuteQueryViaSnapshotListener
                                  (query_internal (lastFive :: int Query)) SourceServer 0],
                     deferreds := 1\<rparr>)"
  by (simp add: getDocs_def getDocsFromCache_def getDocsFromServer_def primitives
      live_client_def)

section \<open>Terminated clients\<close>

text \<open>
  Claim C2, as stated, fails: \<^verbatim>\<open>onSnapshot\<close> on a query runs the last-N validation before
  it looks at the client, so on a terminated client a last-N query without an order term
  is rejected with the validation error, not with the terminated-state error.
\<close>

theorem onSnapshot_terminated_validation_first:
  "terminated (terminated_client :: int FirebaseFirestore)
   \<and> fst (onSnapshot (QueryTarget lastFive) [Function 0]
            (terminated_client :: int FirebaseFirestore)) \<noteq> Inl TerminatedError"
  by (simp add: onSnapshot_validates)

text \<open>
  Claim C2, amended.  On a terminated client every public entry point throws before any
  task is enqueued and leaves the client as it was.  The error is the terminated-state
  error, except for \<^verbatim>\<open>onSnapshot\<close> on a last-N query without an explicit order term,
  where the validation error comes first.
\<close>

theorem terminated_fails_before_enqueue:
  assumes "terminated st"
  shows "getDoc r st = (Inl TerminatedError, st)
       \<and> getDocFromCache r st = (Inl TerminatedError, st)
       \<and> getDocFromServer r st = (Inl TerminatedError, st)
       \<and> getDocs q st = (Inl TerminatedError, st)
       \<and> getDocsFromCache q st = (Inl TerminatedError, st)
       \<and> getDocsFromServer q st = (Inl TerminatedError, st)
       \<and> setDoc co r v opts st = (Inl TerminatedError, st)
       \<and> updateDoc r fu val mfv st = (Inl TerminatedError, st)
       \<and> deleteDoc r st = (Inl TerminatedError, st)
       \<and> addDoc co existing c v st = (Inl TerminatedError, st)
       \<and> onSnapshot (DocumentTarget r) args st = (Inl TerminatedError, st)
       \<and> onSnapshot (QueryTarget q) args st =
            (Inl (if hasLimitToLast (query_internal q) \<and> explicitOrderBy (query_internal q) = []
                  then ValidationError else TerminatedError), st)
       \<and> onSnapshotsInSync a st = (Inl TerminatedError, st)"
  using assms
  by (simp add: entry_points primitives Let_def)

theorem terminated_fails_before_enqueue_witness:
  "terminated (terminated_client :: int FirebaseFirestore)
   \<and> getDoc roomOne (terminated_client :: int FirebaseFirestore)
       = (Inl TerminatedError, terminated_client)
   \<and> updateDoc roomOne (Field (FieldString ''a'')) (Some 1) [] (terminated_client :: int FirebaseFirestore)
       = (Inl TerminatedError, terminated_client)
   \<and> onSnapshot (QueryTarget allRooms) [Function 0] (terminated_client :: int FirebaseFirestore)
       = (Inl TerminatedError, terminated_client)
   \<and> onSnapshot (QueryTarget lastFive) [Function 0] (terminated_client :: int FirebaseFirestore)
       = (Inl ValidationError, terminated_client)
   \<and> onSnapshotsInSync (Function 0) (terminated_client :: int FirebaseFirestore)
       = (Inl TerminatedError, terminated_client)"
proof -
  have t: "terminated (terminated_client :: int FirebaseFirestore)"
    by simp
  have plain: "explicitOrderBy (query_internal (allRooms :: int Query)) = []"
    "\<not> hasLimitToLast (query_internal (allRooms :: int Query))"
    by (simp_all add: allRooms_def newQueryForPath_def hasLimitToLast_def)
  from t
    terminated_fails_before_enqueue [OF t, where r = roomOne and q = allRooms
      and fu = "Field (FieldString ''a'')" and val = "Some 1" and mfv = "[]"
      and args = "[Function 0]" and a = "Function 0"]
    terminated_fails_before_enqueue [OF t, where q = lastFive and args = "[Function 0]"]
  show ?thesis
    by (simp add: plain)
qed


section \<open>Writes\<close>

text \<open>
  Claim C3.  On a live client, \<^verbatim>\<open>updateDoc(ref, "a.b", v1, "c", v2)\<close> submits a write of
  exactly two field mutations, on \<^verbatim>\<open>a.b\<close> and on \<^verbatim>\<open>c\<close> in this order, each under the
  precondition "must exist"; and a varargs call that gives no field/value pair, or whose
  trailing varargs have an odd count, throws the validation error and leaves the client,
  and so its queue, unchanged.  (On a terminated client the terminated check comes first.)
\<close>

theorem updateDoc_varargs:
  assumes "\<not> terminated st"
  shows "updateDoc r (Field (FieldString ''a.b'')) (Some v1)
           [FieldName (FieldString ''c''), FieldValue v2] st =
         (Inr (deferred_promise (deferreds st)),
          st\<lparr>deferreds := Suc (deferreds st),
             queue := queue st @
               [SyncEngineWrite
                  [PatchMutation (ref_key r) (FieldString ''a.b'') v1 (PreconditionExists True),
                   PatchMutation (ref_key r) (FieldString ''c'') v2 (PreconditionExists True)]
                  (deferreds st)]\<rparr>)
       \<and> (val = None \<and> mfv = [] \<or> odd (length mfv)
            \<longrightarrow> updateDoc r (Field f) val mfv st = (Inl ValidationError, st))"
  using assms
  by (auto simp add: updateDoc_def executeWrite_def primitives parseUpdateVarargs_def
      updateData_toMutations_def Let_def)

theorem updateDoc_varargs_witness:
  "\<not> terminated (live_client :: int FirebaseFirestore)
   \<and> updateDoc roomOne (Field (FieldString ''a.b'')) (Some 1)
        [FieldName (FieldString ''c''), FieldValue 2] (live_client :: int FirebaseFirestore) =
       (Inr (deferred_promise 0),
        live_client\<lparr>deferreds := 1,
           queue :=
             [SyncEngineWrite
                [PatchMutation [''rooms'', ''one''] (FieldString ''a.b'') 1 (PreconditionExists True),
                 PatchMutation [''rooms'', ''one''] (FieldString ''c'') 2 (PreconditionExists True)]
                0]\<rparr>)
   \<and> updateDoc roomOne (Field (FieldString ''a'')) (Some 1) [FieldName (FieldString ''b'')]
        (live_client :: int FirebaseFirestore) = (Inl ValidationError, live_client)
   \<and> updateDoc roomOne (Field (FieldString ''a'')) None []
        (live_client :: int FirebaseFirestore) = (Inl ValidationError, live_client)"
proof -
  have l: "\<not> terminated (live_client :: int FirebaseFirestore)"
    by simp
  from l
    updateDoc_varargs [OF l, where r = roomOne and ?v1.0 = 1 and ?v2.0 = 2
      and val = "Some 1" and mfv = "[FieldName (FieldString ''b'')]" and f = "FieldString ''a''"]
    updateDoc_varargs [OF l, where r = roomOne and val = None and mfv = "[]"
      and f = "FieldString ''a''"]
  show ?thesis
    by (simp add: live_client_def roomOne_def)
qed



text \<open>
  Claim C5.  On a live client whose data parses, \<^verbatim>\<open>setDoc\<close> submits one write whose
  mutations are all on the referenced key under the precondition "none"; and
  \<^verbatim>\<open>deleteDoc\<close> submits one write of exactly one delete mutation for the referenced key
  under the precondition "none".
\<close>

theorem setDoc_deleteDoc_precondition_none:
  assumes "\<not> terminated st"
    and "parseSetData co ''setDoc'' (ref_key r)
           (applyFirestoreDataConverter co (ref_converter r) v opts)
           (ref_converter r \<noteq> None) opts = Inr parsed"
  shows "setDoc co r v opts st =
          (Inr (deferred_promise (deferreds st)),
           st\<lparr>deferreds := Suc (deferreds st),
              queue := queue st @
                [SyncEngineWrite (setData_toMutations parsed (ref_key r) PreconditionNone)
                   (deferreds st)]\<rparr>)
       \<and> setData_toMutations parsed (ref_key r) PreconditionNone \<noteq> []
       \<and> list_all (\<lambda>m. mutation_key m = ref_key r \<and> mutation_precondition m = PreconditionNone)
            (setData_toMutations parsed (ref_key r) PreconditionNone)
       \<and> deleteDoc r st =
          (Inr (deferred_promise (deferreds st)),
           st\<lparr>deferreds := Suc (deferreds st),
              queue := queue st @
                [SyncEngineWrite [DeleteMutation (ref_key r) PreconditionNone] (deferreds st)]\<rparr>)"
  using assms
  by (simp add: setDoc_def deleteDoc_def executeWrite_def primitives setData_toMutations_def
      Let_def)

theorem setDoc_deleteDoc_precondition_none_witness:
  "\<not> terminated (live_client :: int FirebaseFirestore)
   \<and> parseSetData plain_collaborators ''setDoc'' (ref_key roomOne)
        (applyFirestoreDataConverter plain_collaborators (ref_converter roomOne) (7 :: int) None)
        (ref_converter (roomOne :: int DocumentReference) \<noteq> None) None = Inr 7
   \<and> setDoc plain_collaborators roomOne 7 None (live_client :: int FirebaseFirestore) =
        (Inr (deferred_promise 0),
         live_client\<lparr>deferreds := 1,
            queue := [SyncEngineWrite [SetMutation [''rooms'', ''one''] 7 PreconditionNone] 0]\<rparr>)
   \<and> deleteDoc roomOne (live_client :: int FirebaseFirestore) =
        (Inr (deferred_promise 0),
         live_client\<lparr>deferreds := 1,
            queue := [SyncEngineWrite [DeleteMutation [''rooms'', ''one''] PreconditionNone] 0]\<rparr>)"
proof -
  have l: "\<not> terminated (live_client :: int FirebaseFirestore)"
    by simp
  have parsed: "parseSetData plain_collaborators ''setDoc'' (ref_key roomOne)
        (applyFirestoreDataConverter plain_collaborators (ref_converter roomOne) (7 :: int) None)
        (ref_converter (roomOne :: int DocumentReference) \<noteq> None) None = Inr 7"
    by (simp add: plain_collaborators_def roomOne_def)
  from l parsed setDoc_deleteDoc_precondition_none [OF l parsed]
  show ?thesis
    by (simp add: setData_toMutations_def roomOne_def live_client_def)
qed


text \<open>
  Claim C6.  On a live client whose arguments parse, each of \<^verbatim>\<open>setDoc\<close>,
  \<^verbatim>\<open>updateDoc\<close>, \<^verbatim>\<open>deleteDoc\<close> and \<^verbatim>\<open>addDoc\<close> is a call of \<^verbatim>\<open>executeWrite\<close> on its
  mutation list (\<^verbatim>\<open>addDoc\<close> chains the new reference onto the promise).
  \<^verbatim>\<open>executeWrite\<close> allocates one deferred cell, enqueues exactly one task, which hands the
  mutations and that cell to the sync engine, and returns the promise of that very cell:
  the promise settles as the cell does.  In the sync engine, running the task applies the
  mutations locally and leaves the promise pending; it resolves when the commit is
  acknowledged and rejects when the commit fails.
\<close>

theorem writes_funnel_into_executeWrite:
  assumes live: "\<not> terminated st"
    and set_parsed: "parseSetData co ''setDoc'' (ref_key r)
           (applyFirestoreDataConverter co (ref_converter r) v opts)
           (ref_converter r \<noteq> None) opts = Inr parsedSet"
    and add_parsed: "parseSetData co ''addDoc'' (ref_key (doc c existing))
           (applyFirestoreDataConverter co (coll_converter c) v None)
           (coll_converter c \<noteq> None) (Some \<lparr>merge = None, mergeFields = None\<rparr>) = Inr parsedAdd"
    and update_parsed: "(case fu of
             Field f \<Rightarrow> parseUpdateVarargs ''updateDoc'' (ref_key r) f val mfv
           | UpdateData d \<Rightarrow> parseUpdateData ''updateDoc'' (ref_key r) d) = Inr parsedUpdate"
    and idle: "pendingCommits se = []"
    and fresh: "writeCells se (deferreds st) = Pending"
  shows "setDoc co r v opts st =
           executeWrite (setData_toMutations parsedSet (ref_key r) PreconditionNone) st
       \<and> updateDoc r fu val mfv st =
           executeWrite (updateData_toMutations parsedUpdate (ref_key r) (PreconditionExists True)) st
       \<and> deleteDoc r st = executeWrite [DeleteMutation (ref_key r) PreconditionNone] st
       \<and> addDoc co existing c v st =
           (case executeWrite
                   (setData_toMutations parsedAdd (ref_key (doc c existing)) (PreconditionExists False)) st of
              (Inl e, st') \<Rightarrow> (Inl e, st')
            | (Inr p, st') \<Rightarrow> (Inr (promise_then p (\<lambda>_. Inr (doc c existing))), st'))
       \<and> executeWrite ms st =
           (Inr (deferred_promise (deferreds st)),
            st\<lparr>deferreds := Suc (deferreds st),
               queue := queue st @ [SyncEngineWrite ms (deferreds st)]\<rparr>)
       \<and> settles (deferred_promise (deferreds st) :: (unit, unit) promise) out = out
       \<and> promise_outcome (run_task (SyncEngineWrite ms (deferreds st)) se)
            (deferred_promise (deferreds st)) = Pending
       \<and> localWrites (run_task (SyncEngineWrite ms (deferreds st)) se) = localWrites se @ ms
       \<and> promise_outcome (commitAcknowledged (run_task (SyncEngineWrite ms (deferreds st)) se))
            (deferred_promise (deferreds st)) = Resolved ()
       \<and> promise_outcome (commitFailed e (run_task (SyncEngineWrite ms (deferreds st)) se))
            (deferred_promise (deferreds st)) = Rejected e"
proof -
  have writes: "setDoc co r v opts st =
           executeWrite (setData_toMutations parsedSet (ref_key r) PreconditionNone) st"
    "updateDoc r fu val mfv st =
           executeWrite (updateData_toMutations parsedUpdate (ref_key r) (PreconditionExists True)) st"
    "deleteDoc r st = executeWrite [DeleteMutation (ref_key r) PreconditionNone] st"
    using live set_parsed update_parsed
    by (simp_all add: setDoc_def updateDoc_def deleteDoc_def bind_def lift_def
        verifyNotTerminated_def Let_def)
  have add: "addDoc co existing c v st =
           (case executeWrite
                   (setData_toMutations parsedAdd (ref_key (doc c existing)) (PreconditionExists False)) st of
              (Inl e, st') \<Rightarrow> (Inl e, st')
            | (Inr p, st') \<Rightarrow> (Inr (promise_then p (\<lambda>_. Inr (doc c existing))), st'))"
    using live add_parsed
    by (simp add: addDoc_def bind_def lift_def return_def verifyNotTerminated_def Let_def
        split: prod.splits sum.splits)
  have engine: "promise_outcome (run_task (SyncEngineWrite ms (deferreds st)) se)
            (deferred_promise (deferreds st)) = Pending"
    "localWrites (run_task (SyncEngineWrite ms (deferreds st)) se) = localWrites se @ ms"
    "promise_outcome (commitAcknowledged (run_task (SyncEngineWrite ms (deferreds st)) se))
            (deferred_promise (deferreds st)) = Resolved ()"
    "promise_outcome (commitFailed e (run_task (SyncEngineWrite ms (deferreds st)) se))
            (deferred_promise (deferreds st)) = Rejected e"
    using idle fresh
    by (simp_all add: promise_outcome_def deferred_promise_def syncEngineWrite_def
        commitAcknowledged_def commitFailed_def)
  have same: "settles (deferred_promise (deferreds st) :: (unit, unit) promise) out = out"
    by (simp add: deferred_promise_def)
  from writes add engine same executeWrite_live [OF live] show ?thesis
    by simp
qed

theorem writes_funnel_into_executeWrite_witness:
  "\<not> terminated (live_client :: int FirebaseFirestore)
   \<and> pendingCommits (idle_engine :: int SyncEngine) = []
   \<and> writeCells (idle_engine :: int SyncEngine) (deferreds (live_client :: int FirebaseFirestore)) = Pending
   \<and> setDoc plain_collaborators roomOne 7 None (live_client :: int FirebaseFirestore) =
        executeWrite [SetMutation [''rooms'', ''one''] 7 PreconditionNone] live_client
   \<and> updateDoc roomOne (Field (FieldString ''a'')) (Some 1) [] (live_client :: int FirebaseFirestore) =
        executeWrite [PatchMutation [''rooms'', ''one''] (FieldString ''a'') 1 (PreconditionExists True)]
          live_client
   \<and> deleteDoc roomOne (live_client :: int FirebaseFirestore) =
        executeWrite [DeleteMutation [''rooms'', ''one''] PreconditionNone] live_client
   \<and> executeWrite [DeleteMutation [''rooms'', ''one''] PreconditionNone]
        (live_client :: int FirebaseFirestore) =
        (Inr (deferred_promise 0),
         live_client\<lparr>deferreds := 1,
            queue := [SyncEngineWrite [DeleteMutation [''rooms'', ''one''] PreconditionNone] 0]\<rparr>)
   \<and> promise_outcome
        (run_task (SyncEngineWrite [DeleteMutation [''rooms'', ''one''] PreconditionNone] 0)
           (idle_engine :: int SyncEngine))
        (deferred_promise 0) = Pending
   \<and> promise_outcome
        (commitAcknowledged
           (run_task (SyncEngineWrite [DeleteMutation [''rooms'', ''one''] PreconditionNone] 0)
              (idle_engine :: int SyncEngine)))
        (deferred_promise 0) = Resolved ()
   \<and> promise_outcome
        (commitFailed (RemoteError ''unavailable'')
           (run_task (SyncEngineWrite [DeleteMutation [''rooms'', ''one''] PreconditionNone] 0)
              (idle_engine :: int SyncEngine)))
        (deferred_promise 0) = Rejected (RemoteError ''unavailable'')"
proof -
  have l: "\<not> terminated (live_client :: int FirebaseFirestore)"
    by simp
  have set_parsed: "parseSetData plain_collaborators ''setDoc'' (ref_key roomOne)
        (applyFirestoreDataConverter plain_collaborators (ref_converter roomOne) (7 :: int) None)
        (ref_converter (roomOne :: int DocumentReference) \<noteq> None) None = Inr 7"
    by (simp add: plain_collaborators_def roomOne_def)
  have add_parsed: "parseSetData plain_collaborators ''addDoc'' (ref_key (doc rooms []))
        (applyFirestoreDataConverter plain_collaborators (coll_converter rooms) (7 :: int) None)
        (coll_converter (rooms :: int CollectionReference) \<noteq> None)
        (Some \<lparr>merge = None, mergeFields = None\<rparr>) = Inr 7"
    by (simp add: plain_collaborators_def rooms_def)
  have update_parsed: "(case Field (FieldString ''a'') of
             Field f \<Rightarrow> parseUpdateVarargs ''updateDoc'' (ref_key roomOne) f (Some (1 :: int)) []
           | UpdateData d \<Rightarrow> parseUpdateData ''updateDoc'' (ref_key roomOne) d)
         = Inr [(FieldString ''a'', 1)]"
    by (simp add: parseUpdateVarargs_def)
  have idle: "pendingCommits (idle_engine :: int SyncEngine) = []"
    by (simp add: idle_engine_def)
  have fresh: "writeCells (idle_engine :: int SyncEngine)
                 (deferreds (live_client :: int FirebaseFirestore)) = Pending"
    by (simp add: idle_engine_def)
  from l idle fresh
    writes_funnel_into_executeWrite [OF l set_parsed add_parsed update_parsed idle fresh,
      where ms = "[DeleteMutation [''rooms'', ''one''] PreconditionNone]"
        and e = "RemoteError ''unavailable''"]
  show ?thesis
    by (simp add: setData_toMutations_def updateData_toMutations_def roomOne_def live_client_def)
qed

section \<open>Snapshot conversion and cache reads\<close>

text \<open>
  Claim C8.  \<^verbatim>\<open>convertToDocSnapshot\<close> asserts that the view snapshot holds at most one
  document: a snapshot of two or more documents raises the assertion failure, which is no
  validation, state or remote error.  Otherwise it returns the document snapshot for the
  referenced key: the document is the snapshot's document if it has that key and absent
  if not, and the metadata carry the view snapshot's \<^verbatim>\<open>hasPendingWrites\<close> and
  \<^verbatim>\<open>fromCache\<close> flags.
\<close>

theorem convertToDocSnapshot_single_document:
  "convertToDocSnapshot r snapshot =
     (case vs_docs snapshot of
        [] \<Rightarrow> Inr \<lparr>ds_key = ref_key r, ds_document = None,
                    ds_metadata = \<lparr>hasPendingWrites = vs_hasPendingWrites snapshot,
                                   fromCache = vs_fromCache snapshot\<rparr>,
                    ds_converter = ref_converter r\<rparr>
      | [d] \<Rightarrow> Inr \<lparr>ds_key = ref_key r,
                     ds_document = (if doc_key d = ref_key r then Some d else None),
                     ds_metadata = \<lparr>hasPendingWrites = vs_hasPendingWrites snapshot,
                                    fromCache = vs_fromCache snapshot\<rparr>,
                     ds_converter = ref_converter r\<rparr>
      | _ \<Rightarrow> Inl AssertionFailure)"
  by (simp add: convertToDocSnapshot_def debugAssert_def docs_get_def split: list.splits)

theorem convertToDocSnapshot_single_document_witness:
  "convertToDocSnapshot roomOne twoDocuments = Inl AssertionFailure
   \<and> convertToDocSnapshot roomOne oneDocument =
       Inr \<lparr>ds_key = [''rooms'', ''one''],
            ds_document =
              Some \<lparr>doc_key = [''rooms'', ''one''], doc_data = 1, hasLocalMutations = True\<rparr>,
            ds_metadata = \<lparr>hasPendingWrites = True, fromCache = True\<rparr>,
            ds_converter = None\<rparr>"
  using convertToDocSnapshot_single_document [of roomOne twoDocuments]
    convertToDocSnapshot_single_document [of roomOne oneDocument]
  by (simp add: twoDocuments_def oneDocument_def roomOne_def)

text \<open>
  Claim C9.  On a live client \<^verbatim>\<open>getDocFromCache\<close> enqueues the cache read and returns a
  promise on its deferred cell.  When the cell resolves with the cached document (or with
  its absence) the promise resolves with a snapshot of the referenced key whose metadata
  have \<^verbatim>\<open>fromCache\<close> true and \<^verbatim>\<open>hasPendingWrites\<close> equal to the document's
  local-mutations flag, and false for an absent document.
\<close>

theorem getDocFromCache_metadata:
  assumes "\<not> terminated st"
  shows "(case getDocFromCache r st of
           (Inr p, st') \<Rightarrow>
              queue st' = queue st @ [ReadDocumentFromCache (ref_key r) (cell p)]
              \<and> settles p Pending = Pending
              \<and> settles p (Rejected e) = Rejected e
              \<and> (case settles p (Resolved d) of
                    Resolved snap \<Rightarrow>
                      ds_key snap = ref_key r \<and> ds_document snap = d
                      \<and> fromCache (ds_metadata snap) = True
                      \<and> hasPendingWrites (ds_metadata snap) =
                          (case d of Some x \<Rightarrow> hasLocalMutations x | None \<Rightarrow> False)
                  | _ \<Rightarrow> False)
         | (Inl _, _) \<Rightarrow> False)"
  using assms
  by (simp add: getDocFromCache_def primitives promise_then_def deferred_promise_def)

theorem getDocFromCache_metadata_witness:
  "\<not> terminated (live_client :: int FirebaseFirestore)
   \<and> (case getDocFromCache roomOne (live_client :: int FirebaseFirestore) of
        (Inr p, st') \<Rightarrow>
           (case settles p (Resolved (Some \<lparr>doc_key = [''rooms'', ''one''], doc_data = 1,
                                              hasLocalMutations = True\<rparr>)) of
              Resolved snap \<Rightarrow>
                fromCache (ds_metadata snap) \<and> hasPendingWrites (ds_metadata snap)
            | _ \<Rightarrow> False)
           \<and> (case settles p (Resolved None) of
                 Resolved snap \<Rightarrow>
                   fromCache (ds_metadata snap) \<and> \<not> hasPendingWrites (ds_metadata snap)
               | _ \<Rightarrow> False)
      | (Inl _, _) \<Rightarrow> False)"
proof -
  have l: "\<not> terminated (live_client :: int FirebaseFirestore)"
    by simp
  from l
    getDocFromCache_metadata [OF l, where r = roomOne
      and d = "Some \<lparr>doc_key = [''rooms'', ''one''], doc_data = 1, hasLocalMutations = True\<rparr>"]
    getDocFromCache_metadata [OF l, where r = roomOne and d = None]
  show ?thesis
    by (auto split: prod.splits sum.splits outcome.splits)
qed


section \<open>Listeners\<close>

text \<open>
  Claim C10.  On a live client, for a target that passes validation, a call of
  \<^verbatim>\<open>onSnapshot\<close> that supplies no listen options returns the unsubscribe handle of a new
  wrapped observer and enqueues the registration of a listener whose
  \<^verbatim>\<open>includeMetadataChanges\<close> is \<^verbatim>\<open>false\<close>.
\<close>

theorem onSnapshot_default_options:
  assumes "noListenOptions args"
    and "\<not> terminated st"
    and "\<not> (hasLimitToLast (target_query t) \<and> explicitOrderBy (target_query t) = [])"
  shows "fst (onSnapshot t args st) =
           Inr (UnsubscribeListener (length (observers st))
                  \<lparr>listener_query = target_query t,
                   listener_observer = length (observers st),
                   includeMetadataChanges = Some False\<rparr>)
       \<and> queue (snd (onSnapshot t args st)) =
           queue st @ [EventManagerListen
                         \<lparr>listener_query = target_query t,
                          listener_observer = length (observers st),
                          includeMetadataChanges = Some False\<rparr>]"
proof -
  have opt: "(isObject (nth_arg args 0) \<and> \<not> isPartialObserver (nth_arg args 0)) = False"
    using assms(1) by (cases "nth_arg args 0") (simp_all add: noListenOptions_def)
  show ?thesis
  proof (cases t)
    case (DocumentTarget r)
    with assms(2) show ?thesis
      by (simp add: onSnapshot_def primitives Let_def target_query_def opt)
  next
    case (QueryTarget q)
    with assms(2,3) show ?thesis
      by (simp add: onSnapshot_def primitives Let_def target_query_def opt)
  qed
qed

theorem onSnapshot_default_options_witness:
  "noListenOptions [Object None (Some 0) None None]
   \<and> \<not> terminated (live_client :: int FirebaseFirestore)
   \<and> fst (onSnapshot (DocumentTarget roomOne) [Object None (Some 0) None None]
            (live_client :: int FirebaseFirestore)) = Inr roomHandle
   \<and> queue (snd (onSnapshot (DocumentTarget roomOne) [Object None (Some 0) None None]
                   (live_client :: int FirebaseFirestore))) = [EventManagerListen roomListener]
   \<and> includeMetadataChanges roomListener = Some False"
proof -
  have n: "noListenOptions [Object None (Some 0) None None]"
    by (simp add: noListenOptions_def nth_arg_def)
  have l: "\<not> terminated (live_client :: int FirebaseFirestore)"
    by simp
  have v: "\<not> (hasLimitToLast (target_query (DocumentTarget (roomOne :: int DocumentReference)))
              \<and> explicitOrderBy (target_query (DocumentTarget (roomOne :: int DocumentReference))) = [])"
    by (simp add: target_query_def newQueryForPath_def hasLimitToLast_def)
  from n l onSnapshot_default_options [OF n l v]
  show ?thesis
    by (simp add: target_query_def roomOne_def roomHandle_def roomListener_def live_client_def)
qed

subsection \<open>Unsubscribing\<close>











lemma delivery_reaches_unmuted:
  "invocations_of 0 (run [RaiseEvent 0 InSyncEvent, DeliverScheduled]
                        (listening_client :: 'v FirebaseFirestore)) = [(0, InSyncEvent)]"
  by (simp add: listening_client_def onSnapshot_def primitives Let_def
      live_client_def nth_arg_def raise_event_def deliver_scheduled_def invocations_of_def)



text \<open>
  The order of the two statements of an unsubscribe function can be observed: on a client
  terminated after the registration, a function that enqueued first and muted second would
  fail at the queue and leave the observer not muted.
\<close>

lemma enqueue_then_mute_leaves_unmuted:
  "\<not> is_muted
       (snd (bind (enqueueAndForget (deregistration roomHandle)) (\<lambda>_. mute 0)
               (run [Terminate] (listening_client :: 'v FirebaseFirestore)))) 0"
  by (simp add: listening_client_def onSnapshot_def primitives Let_def
      live_client_def nth_arg_def is_muted_def)



end
